theory Spec2Isabelle
  imports Complex_Main
begin

section \<open>The LLTF wrapper (lltf\_wrapper.py) as HOL functions\<close>

text \<open>
  The class \<open>LLTF\<close> is a record of its attributes; each method takes the session and
  returns what the call produced together with the session as the call left it, also when
  the call raised: Python keeps the assignments made before an exception. Wavelengths are
  Python floats; the methods only compare, store and load them, and they are modelled as
  reals. The vendor library behind \<open>self.dll\<close> is a record of response functions, so
  that every theorem about a real-mode call holds for every behaviour of the library.
  \<open>print\<close> is not modelled.
\<close>

subsection \<open>Data\<close>

text \<open>One entry of \<open>self.grating_ranges\<close>: the dict built in \<open>_load_xml_config\<close>.\<close>

record grating_info =
  index :: int
  regular_range :: "real \<times> real"
  extended_range :: "real \<times> real"

text \<open>
  The text interpolated into one line \<open>Grating i: lo-hi nm\<close> of the error message of
  \<open>_select_grating_for_wavelength\<close>: the index and the two bounds.
\<close>

type_synonym range_entry = "int \<times> real \<times> real"

text \<open>
  Every raise site of the module is \<open>LLTFError\<close> with its own message; one constructor
  per message. \<open>AttributeError\<close> and \<open>TypeError\<close> are Python's own: a method
  called on \<open>None\<close>, and a keyword argument that the signature does not have.
\<close>

datatype error =
    NotInitialized
  | InvalidGrating int
  | UnsupportedWavelength real "range_entry list"
  | StatusFailure string int "string option"
  | DllLoadFailed
  | AttributeError
  | TypeError

text \<open>\<open>warnings.warn\<close> of the extended-range branch: the wavelength and the grating.\<close>

datatype warning = ExtendedRangeWarning real int

datatype cdll = PE_Filter_SDK

text \<open>The calls that cross into the vendor library, with their arguments.\<close>

datatype native_call =
    PE_Create string
  | PE_Open int string
  | PE_GetSystemCount int
  | PE_GetWavelength int
  | PE_SetWavelengthOnGrating int int real
  | PE_Close int
  | PE_Destroy int

text \<open>
  What the vendor library answers: whether \<open>ct.CDLL\<close> finds it, and for each
  function the status it returns (with the value written through \<open>byref\<close>).
\<close>

record gateway =
  loadable :: bool
  pe_create :: "string \<Rightarrow> int \<times> int"
  pe_open :: "int \<Rightarrow> string \<Rightarrow> int"
  pe_get_system_count :: "int \<Rightarrow> int"
  pe_get_wavelength :: "int \<Rightarrow> int \<times> real"
  pe_set_wavelength_on_grating :: "int \<Rightarrow> int \<Rightarrow> real \<Rightarrow> int"
  pe_close :: "int \<Rightarrow> int"

text \<open>
  The attributes of \<open>LLTF\<close>. \<open>handle\<close> is \<open>None\<close> or a \<open>c_void_p\<close> holding an
  address. \<open>calls\<close> and \<open>warned\<close> are not attributes: they record, in order, the
  native calls made and the warnings emitted so far.
\<close>

record lltf =
  dll :: "cdll option"
  handle :: "int option"
  xml_path :: string
  grating_ranges :: "grating_info list"
  system_name :: "string option"
  simulate_mode :: bool
  simulated_wavelength :: real
  calls :: "native_call list"
  warned :: "warning list"

type_synonym 'a result = "(error + 'a) \<times> lltf"

subsection \<open>Construction\<close>

text \<open>
  The loop \<open>for i, grating in enumerate(gratings)\<close> of \<open>_load_xml_config\<close>, on the
  parsed \<open>Grating\<close> elements: \<open>None\<close> is an element without a \<open>Range\<close> child, which is
  skipped while the counter still advances; otherwise the four numbers are
  \<open>RegLower\<close>, \<open>RegUpper\<close>, \<open>ExtLower\<close>, \<open>ExtUpper\<close>.
\<close>

fun load_gratings :: "int \<Rightarrow> (real \<times> real \<times> real \<times> real) option list \<Rightarrow> grating_info list" where
  "load_gratings i [] = []"
| "load_gratings i (None # rest) = load_gratings (i + 1) rest"
| "load_gratings i (Some (reg_lower, reg_upper, ext_lower, ext_upper) # rest) =
     \<lparr>index = i, regular_range = (reg_lower, reg_upper),
      extended_range = (ext_lower, ext_upper)\<rparr> # load_gratings (i + 1) rest"

text \<open>
  \<open>__init__\<close> for a configuration file that exists and parses: its path, the \<open>Id\<close> of
  the Filter component and the parsed gratings.
\<close>

definition init_lltf :: "string \<Rightarrow> string option \<Rightarrow> (real \<times> real \<times> real \<times> real) option list \<Rightarrow> lltf" where
  "init_lltf path name gratings =
     \<lparr>dll = None, handle = None, xml_path = path,
      grating_ranges = load_gratings 0 gratings, system_name = name,
      simulate_mode = False, simulated_wavelength = 550,
      calls = [], warned = []\<rparr>"

subsection \<open>Status checking and grating selection\<close>

definition error_descriptions :: "int \<Rightarrow> string option" where
  "error_descriptions status =
     (if status = 1 then Some ''Invalid handle''
      else if status = 2 then Some ''Instrument communication failure''
      else if status = 3 then Some ''Configuration file missing''
      else if status = 4 then Some ''Configuration file corrupted''
      else if status = 5 then Some ''Wavelength out of bounds''
      else if status = 9 then Some ''Invalid grating specified''
      else if status = 13 then Some ''No filter connected''
      else None)"

text \<open>\<open>_check_status\<close>: \<open>None\<close> when it returns, the error when it raises.\<close>

definition check_status :: "int \<Rightarrow> string \<Rightarrow> error option" where
  "check_status status operation =
     (if status \<noteq> 0 then Some (StatusFailure operation status (error_descriptions status))
      else None)"

text \<open>The first loop of \<open>_select_grating_for_wavelength\<close>, with its early return.\<close>

fun scan_regular :: "grating_info list \<Rightarrow> real \<Rightarrow> int option" where
  "scan_regular [] wavelength = None"
| "scan_regular (grating # rest) wavelength =
     (case regular_range grating of (reg_min, reg_max) \<Rightarrow>
        if reg_min \<le> wavelength \<and> wavelength \<le> reg_max then Some (index grating)
        else scan_regular rest wavelength)"

text \<open>The second loop: the match is returned with the warning it emits.\<close>

fun scan_extended :: "grating_info list \<Rightarrow> real \<Rightarrow> (int \<times> warning list) option" where
  "scan_extended [] wavelength = None"
| "scan_extended (grating # rest) wavelength =
     (case extended_range grating of (ext_min, ext_max) \<Rightarrow>
        if ext_min \<le> wavelength \<and> wavelength \<le> ext_max
        then Some (index grating, [ExtendedRangeWarning wavelength (index grating)])
        else scan_extended rest wavelength)"

text \<open>The third loop, which builds \<open>ranges_str\<close>.\<close>

fun ranges_str :: "grating_info list \<Rightarrow> range_entry list" where
  "ranges_str [] = []"
| "ranges_str (grating # rest) =
     (case regular_range grating of (reg_min, reg_max) \<Rightarrow>
        (index grating, reg_min, reg_max) # ranges_str rest)"

text \<open>
  \<open>_select_grating_for_wavelength\<close>: the grating index and the warnings emitted, or
  the error raised.
\<close>

definition select_grating_for_wavelength :: "lltf \<Rightarrow> real \<Rightarrow> error + (int \<times> warning list)" where
  "select_grating_for_wavelength s wavelength =
     (case scan_regular (grating_ranges s) wavelength of
        Some i \<Rightarrow> Inr (i, [])
      | None \<Rightarrow>
          (case scan_extended (grating_ranges s) wavelength of
             Some found \<Rightarrow> Inr found
           | None \<Rightarrow> Inl (UnsupportedWavelength wavelength (ranges_str (grating_ranges s)))))"

subsection \<open>The session's methods\<close>

text \<open>\<open>_load_dll\<close>.\<close>

definition load_dll :: "gateway \<Rightarrow> lltf \<Rightarrow> unit result" where
  "load_dll gw s =
     (if simulate_mode s then (Inr (), s)
      else if loadable gw then (Inr (), s\<lparr>dll := Some PE_Filter_SDK\<rparr>)
      else (Inl DllLoadFailed, s))"

text \<open>
  \<open>initialize(self, simulate)\<close>. In real mode \<open>PE_Create\<close> writes the handle through
  \<open>byref\<close>; \<open>PE_Open\<close> is called when \<open>system_name\<close> is a non-empty string.
\<close>

definition initialize :: "gateway \<Rightarrow> lltf \<Rightarrow> bool \<Rightarrow> unit result" where
  "initialize gw s0 simulate =
     (let s1 = s0\<lparr>simulate_mode := simulate\<rparr> in
      if simulate then (Inr (), s1\<lparr>handle := Some 1\<rparr>)
      else
        (case load_dll gw s1 of
           (Inl e, s2) \<Rightarrow> (Inl e, s2)
         | (Inr u, s2) \<Rightarrow>
             (case pe_create gw (xml_path s2) of (status, h) \<Rightarrow>
                (let s3 = s2\<lparr>handle := Some h, calls := calls s2 @ [PE_Create (xml_path s2)]\<rparr> in
                 case check_status status ''PE_Create'' of
                   Some e \<Rightarrow> (Inl e, s3)
                 | None \<Rightarrow>
                     (case system_name s3 of
                        None \<Rightarrow> (Inr (), s3)
                      | Some name \<Rightarrow>
                          if name = [] then (Inr (), s3)
                          else
                            (let s4 = s3\<lparr>calls := calls s3 @ [PE_Open h name]\<rparr> in
                             case check_status (pe_open gw h name) ''PE_Open'' of
                               Some e \<Rightarrow> (Inl e, s4)
                             | None \<Rightarrow> (Inr (), s4)))))))"

text \<open>
  A call \<open>initialize(simulate=b, uncertainty=u)\<close>, as test\_simple.py and
  test\_uncertainty.py make it: Python binds the keywords against the signature
  \<open>initialize(self, simulate: bool = False)\<close> and raises \<open>TypeError\<close> for a keyword
  the signature does not have, before the body runs.
\<close>

definition call_initialize :: "gateway \<Rightarrow> lltf \<Rightarrow> bool option \<Rightarrow> real option \<Rightarrow> unit result" where
  "call_initialize gw s simulate uncertainty =
     (case uncertainty of
        Some u \<Rightarrow> (Inl TypeError, s)
      | None \<Rightarrow> initialize gw s (case simulate of None \<Rightarrow> False | Some b \<Rightarrow> b))"

text \<open>\<open>get_connected_device_count\<close>.\<close>

definition get_connected_device_count :: "gateway \<Rightarrow> lltf \<Rightarrow> int result" where
  "get_connected_device_count gw s =
     (if simulate_mode s then (Inr 1, s)
      else
        (case handle s of
           None \<Rightarrow> (Inl NotInitialized, s)
         | Some h \<Rightarrow>
             (case dll s of
                None \<Rightarrow> (Inl AttributeError, s)
              | Some d \<Rightarrow>
                  (Inr (pe_get_system_count gw h), s\<lparr>calls := calls s @ [PE_GetSystemCount h]\<rparr>))))"

text \<open>\<open>get_wavelength\<close>.\<close>

definition get_wavelength :: "gateway \<Rightarrow> lltf \<Rightarrow> real result" where
  "get_wavelength gw s =
     (if simulate_mode s then (Inr (simulated_wavelength s), s)
      else
        (case handle s of
           None \<Rightarrow> (Inl NotInitialized, s)
         | Some h \<Rightarrow>
             (case dll s of
                None \<Rightarrow> (Inl AttributeError, s)
              | Some d \<Rightarrow>
                  (case pe_get_wavelength gw h of (status, wavelength) \<Rightarrow>
                     (let s1 = s\<lparr>calls := calls s @ [PE_GetWavelength h]\<rparr> in
                      case check_status status ''PE_GetWavelength'' of
                        Some e \<Rightarrow> (Inl e, s1)
                      | None \<Rightarrow> (Inr wavelength, s1))))))"

text \<open>
  \<open>set_wavelength(self, wavelength, grating)\<close>; \<open>grating\<close> is \<open>None\<close> when the
  caller leaves it out.
\<close>

definition set_wavelength :: "gateway \<Rightarrow> lltf \<Rightarrow> real \<Rightarrow> int option \<Rightarrow> unit result" where
  "set_wavelength gw s wavelength grating =
     (case handle s of
        None \<Rightarrow> (Inl NotInitialized, s)
      | Some h \<Rightarrow>
          (case (case grating of
                   None \<Rightarrow> select_grating_for_wavelength s wavelength
                 | Some g \<Rightarrow> Inr (g, [])) of
             Inl e \<Rightarrow> (Inl e, s)
           | Inr (g, ws) \<Rightarrow>
               (let s1 = s\<lparr>warned := warned s @ ws\<rparr> in
                if g \<notin> set [0, 1] then (Inl (InvalidGrating g), s1)
                else if simulate_mode s1 then (Inr (), s1\<lparr>simulated_wavelength := wavelength\<rparr>)
                else
                  (case dll s1 of
                     None \<Rightarrow> (Inl AttributeError, s1)
                   | Some d \<Rightarrow>
                       (let s2 = s1\<lparr>calls := calls s1 @ [PE_SetWavelengthOnGrating h g wavelength]\<rparr> in
                        case check_status (pe_set_wavelength_on_grating gw h g wavelength)
                               ''PE_SetWavelengthOnGrating'' of
                          Some e \<Rightarrow> (Inl e, s2)
                        | None \<Rightarrow> (Inr (), s2))))))"

text \<open>\<open>get_grating_ranges\<close>: a copy of the list.\<close>

definition get_grating_ranges :: "lltf \<Rightarrow> grating_info list" where
  "get_grating_ranges s = grating_ranges s"

text \<open>
  \<open>close\<close>. The error of \<open>_check_status\<close> after \<open>PE_Close\<close> is caught and dropped
  (\<open>except LLTFError: pass\<close>); \<open>PE_Destroy\<close> is guarded by \<open>if self.dll\<close>, the call
  of \<open>PE_Close\<close> is not.
\<close>

definition close :: "gateway \<Rightarrow> lltf \<Rightarrow> unit result" where
  "close gw s =
     (if simulate_mode s then (Inr (), s)
      else
        (case handle s of
           None \<Rightarrow> (Inr (), s)
         | Some h \<Rightarrow>
             (case dll s of
                None \<Rightarrow> (Inl AttributeError, s)
              | Some d \<Rightarrow>
                  (let s1 = s\<lparr>calls := calls s @ [PE_Close h]\<rparr>;
                       s2 = (case check_status (pe_close gw h) ''PE_Close'' of
                               Some e \<Rightarrow> s1
                             | None \<Rightarrow> s1);
                       s3 = (if dll s2 \<noteq> None then s2\<lparr>calls := calls s2 @ [PE_Destroy h]\<rparr>
                             else s2)
                   in (Inr (), s3\<lparr>handle := None\<rparr>)))))"

text \<open>\<open>__exit__\<close>.\<close>

definition exit_lltf :: "gateway \<Rightarrow> lltf \<Rightarrow> unit result" where
  "exit_lltf gw s = close gw s"

subsection \<open>Notions of the specification\<close>

text \<open>A range contains a wavelength: both bounds inclusive.\<close>

definition contains :: "real \<times> real \<Rightarrow> real \<Rightarrow> bool" where
  "contains r w = (fst r \<le> w \<and> w \<le> snd r)"

subsection \<open>Configurations and hosts used in the examples\<close>

text \<open>
  Two gratings whose regular ranges [400,700] and [650,1000] overlap, with extended
  ranges [350,750] and [600,1050].
\<close>

definition two_gratings :: lltf where
  "two_gratings =
     init_lltf ''lltf.xml'' (Some ''LLTF Contrast'')
       [Some (400, 700, 350, 750), Some (650, 1000, 600, 1050)]"

text \<open>A configuration with a single grating.\<close>

definition one_grating :: lltf where
  "one_grating = init_lltf ''lltf.xml'' (Some ''LLTF Contrast'') [Some (400, 700, 350, 750)]"

text \<open>A host without the vendor library: \<open>ct.CDLL\<close> fails.\<close>

definition no_library :: gateway where
  "no_library =
     \<lparr>loadable = False, pe_create = (\<lambda>path. (3, 0)), pe_open = (\<lambda>h name. 1),
      pe_get_system_count = (\<lambda>h. 0), pe_get_wavelength = (\<lambda>h. (1, 0)),
      pe_set_wavelength_on_grating = (\<lambda>h g w. 1), pe_close = (\<lambda>h. 1)\<rparr>"

text \<open>
  A host with the library and a device, on which \<open>PE_Close\<close> reports a communication
  failure (status 2).
\<close>

definition close_fails :: gateway where
  "close_fails =
     \<lparr>loadable = True, pe_create = (\<lambda>path. (0, 4096)), pe_open = (\<lambda>h name. 0),
      pe_get_system_count = (\<lambda>h. 1), pe_get_wavelength = (\<lambda>h. (0, 550)),
      pe_set_wavelength_on_grating = (\<lambda>h g w. 0), pe_close = (\<lambda>h. 2)\<rparr>"

section \<open>Grating selection\<close>

subsection \<open>The three loops\<close>

lemma scan_regular_skip:
  "(\<forall>h \<in> set pre. \<not> contains (regular_range h) w) \<Longrightarrow>
   scan_regular (pre @ rest) w = scan_regular rest w"
  by (induction pre) (auto simp: contains_def split: prod.splits)

lemma scan_extended_skip:
  "(\<forall>h \<in> set pre. \<not> contains (extended_range h) w) \<Longrightarrow>
   scan_extended (pre @ rest) w = scan_extended rest w"
  by (induction pre) (auto simp: contains_def split: prod.splits)

lemma scan_regular_hit:
  "contains (regular_range g) w \<Longrightarrow> scan_regular (g # post) w = Some (index g)"
  by (auto simp: contains_def split: prod.splits)

lemma scan_extended_hit:
  "contains (extended_range g) w \<Longrightarrow>
   scan_extended (g # post) w = Some (index g, [ExtendedRangeWarning w (index g)])"
  by (auto simp: contains_def split: prod.splits)

lemma scan_regular_none:
  "(\<forall>h \<in> set gs. \<not> contains (regular_range h) w) \<Longrightarrow> scan_regular gs w = None"
  using scan_regular_skip [of gs w "[]"] by simp

lemma scan_extended_none:
  "(\<forall>h \<in> set gs. \<not> contains (extended_range h) w) \<Longrightarrow> scan_extended gs w = None"
  using scan_extended_skip [of gs w "[]"] by simp

lemma ranges_str_map:
  "ranges_str gs = map (\<lambda>g. (index g, fst (regular_range g), snd (regular_range g))) gs"
  by (induction gs) (auto split: prod.splits)

lemma two_gratings_ranges:
  "grating_ranges two_gratings =
     [\<lparr>index = 0, regular_range = (400, 700), extended_range = (350, 750)\<rparr>,
      \<lparr>index = 1, regular_range = (650, 1000), extended_range = (600, 1050)\<rparr>]"
  by (simp add: two_gratings_def init_lltf_def)

lemma one_grating_ranges:
  "grating_ranges one_grating =
     [\<lparr>index = 0, regular_range = (400, 700), extended_range = (350, 750)\<rparr>]"
  by (simp add: one_grating_def init_lltf_def)

subsection \<open>C1: the first regular range that contains the wavelength wins\<close>

text \<open>
  C1. Whatever the wavelength and the list of ranges: when the list is \<open>pre @ g # post\<close>,
  no grating of \<open>pre\<close> has the wavelength in its regular range and \<open>g\<close> has it (bounds
  inclusive), \<open>_select_grating_for_wavelength\<close> returns the index of \<open>g\<close> and emits
  no warning. Whether a later grating of \<open>post\<close> contains the wavelength too does not
  matter.
\<close>

theorem select_regular_first_match:
  assumes "grating_ranges s = pre @ g # post"
    and "\<forall>h \<in> set pre. \<not> contains (regular_range h) w"
    and "contains (regular_range g) w"
  shows "select_grating_for_wavelength s w = Inr (index g, [])"
proof -
  have "scan_regular (grating_ranges s) w = scan_regular (g # post) w"
    unfolding assms(1) by (rule scan_regular_skip [OF assms(2)])
  also have "\<dots> = Some (index g)"
    by (rule scan_regular_hit [OF assms(3)])
  finally show ?thesis
    by (simp add: select_grating_for_wavelength_def)
qed

text \<open>
  The scenario of the specification: regular ranges [400,700] and [650,1000], and
  650 nm, which both contain; grating 0 is returned.
\<close>

theorem select_regular_first_match_witness:
  "select_grating_for_wavelength two_gratings 650 = Inr (0, [])
   \<and> contains (regular_range (grating_ranges two_gratings ! 0)) 650
   \<and> contains (regular_range (grating_ranges two_gratings ! 1)) 650"
  using select_regular_first_match
    [of two_gratings "[]" "\<lparr>index = 0, regular_range = (400, 700), extended_range = (350, 750)\<rparr>"
        "[\<lparr>index = 1, regular_range = (650, 1000), extended_range = (600, 1050)\<rparr>]" 650]
  by (simp add: two_gratings_ranges contains_def)

subsection \<open>C2: the fallback to the extended ranges\<close>

text \<open>
  C2. When no grating has the wavelength in its regular range, the list is
  \<open>pre @ g # post\<close>, no grating of \<open>pre\<close> has the wavelength in its extended range
  and \<open>g\<close> has it (bounds inclusive), \<open>_select_grating_for_wavelength\<close> returns the
  index of \<open>g\<close>, and emits exactly one warning, which names the wavelength and \<open>g\<close>;
  the call returns, it does not raise.
\<close>

theorem select_extended_first_match:
  assumes "\<forall>h \<in> set (grating_ranges s). \<not> contains (regular_range h) w"
    and "grating_ranges s = pre @ g # post"
    and "\<forall>h \<in> set pre. \<not> contains (extended_range h) w"
    and "contains (extended_range g) w"
  shows "select_grating_for_wavelength s w =
           Inr (index g, [ExtendedRangeWarning w (index g)])"
proof -
  have regular: "scan_regular (grating_ranges s) w = None"
    by (rule scan_regular_none [OF assms(1)])
  have "scan_extended (grating_ranges s) w = scan_extended (g # post) w"
    unfolding assms(2) by (rule scan_extended_skip [OF assms(3)])
  also have "\<dots> = Some (index g, [ExtendedRangeWarning w (index g)])"
    by (rule scan_extended_hit [OF assms(4)])
  finally show ?thesis
    using regular by (simp add: select_grating_for_wavelength_def)
qed

text \<open>1020 nm is beyond both regular ranges and inside the extended range of grating 1 only.\<close>

theorem select_extended_first_match_witness:
  "select_grating_for_wavelength two_gratings 1020 = Inr (1, [ExtendedRangeWarning 1020 1])"
  using select_extended_first_match
    [of two_gratings 1020 "[\<lparr>index = 0, regular_range = (400, 700), extended_range = (350, 750)\<rparr>]"
        "\<lparr>index = 1, regular_range = (650, 1000), extended_range = (600, 1050)\<rparr>" "[]"]
  by (simp add: two_gratings_ranges contains_def)

section \<open>Setting and reading the wavelength\<close>

lemma initialize_simulate:
  "initialize gw s True = (Inr (), s\<lparr>simulate_mode := True, handle := Some 1\<rparr>)"
  by (simp add: initialize_def)

lemma select_unsupported:
  assumes "\<forall>h \<in> set (grating_ranges s).
             \<not> contains (regular_range h) w \<and> \<not> contains (extended_range h) w"
  shows "select_grating_for_wavelength s w =
           Inl (UnsupportedWavelength w
                  (map (\<lambda>g. (index g, fst (regular_range g), snd (regular_range g)))
                     (grating_ranges s)))"
proof -
  have "scan_regular (grating_ranges s) w = None"
    using assms by (intro scan_regular_none) simp
  moreover have "scan_extended (grating_ranges s) w = None"
    using assms by (intro scan_extended_none) simp
  ultimately show ?thesis
    by (simp add: select_grating_for_wavelength_def ranges_str_map)
qed

subsection \<open>C3: a wavelength that no range contains\<close>

text \<open>
  C3 as stated fails before \<open>initialize\<close>: \<open>set_wavelength\<close> first tests
  \<open>self.handle is None\<close> and raises "Device not initialized" without looking at the
  wavelength. 2000 nm is in no regular and no extended range of the two gratings, and on
  the freshly constructed session the error is \<open>NotInitialized\<close>, not
  \<open>UnsupportedWavelength\<close>.
\<close>

theorem set_wavelength_uninitialized_counterexample:
  "\<not> contains (regular_range (grating_ranges two_gratings ! 0)) 2000
   \<and> \<not> contains (extended_range (grating_ranges two_gratings ! 0)) 2000
   \<and> \<not> contains (regular_range (grating_ranges two_gratings ! 1)) 2000
   \<and> \<not> contains (extended_range (grating_ranges two_gratings ! 1)) 2000
   \<and> fst (set_wavelength no_library two_gratings 2000 None) = Inl NotInitialized"
  by (simp add: two_gratings_ranges contains_def set_wavelength_def)
    (simp add: two_gratings_def init_lltf_def)

text \<open>
  C3, amended. On a session whose handle is set (in simulation mode or not), for every
  wavelength that no grating's regular range and no grating's extended range contains,
  \<open>set_wavelength\<close> without a grating raises \<open>UnsupportedWavelength\<close>; the message
  lists, in stored order, the index and the regular range of every configured grating;
  the session is left as it was.
\<close>

theorem set_wavelength_unsupported:
  assumes "handle s \<noteq> None"
    and "\<forall>h \<in> set (grating_ranges s).
           \<not> contains (regular_range h) w \<and> \<not> contains (extended_range h) w"
  shows "set_wavelength gw s w None =
           (Inl (UnsupportedWavelength w
                   (map (\<lambda>g. (index g, fst (regular_range g), snd (regular_range g)))
                      (grating_ranges s))), s)"
  using assms(1) select_unsupported [OF assms(2)]
  by (auto simp: set_wavelength_def)

theorem set_wavelength_unsupported_witness:
  "set_wavelength no_library (snd (initialize no_library two_gratings True)) 2000 None =
     (Inl (UnsupportedWavelength 2000 [(0, 400, 700), (1, 650, 1000)]),
      snd (initialize no_library two_gratings True))"
  using set_wavelength_unsupported
    [of "snd (initialize no_library two_gratings True)" 2000 no_library]
  by (simp add: initialize_simulate two_gratings_ranges contains_def)

subsection \<open>C5: reading back what was set, in simulation\<close>

text \<open>
  C5. \<open>initialize\<close> has no uncertainty parameter, so every simulated session is the
  default one. In simulation mode, whenever \<open>set_wavelength\<close> returns normally for a
  wavelength \<open>W\<close> (with or without a grating argument), \<open>get_wavelength\<close> called
  next returns exactly \<open>W\<close>.
\<close>

theorem get_after_set_simulation:
  assumes "simulate_mode s"
    and "fst (set_wavelength gw s W grating) = Inr ()"
  shows "fst (get_wavelength gw' (snd (set_wavelength gw s W grating))) = Inr W"
  using assms
  by (auto simp: set_wavelength_def get_wavelength_def Let_def
      split: option.splits sum.splits prod.splits if_splits)

theorem get_after_set_simulation_witness:
  "fst (get_wavelength no_library
          (snd (set_wavelength no_library (snd (initialize no_library two_gratings True)) 600 None)))
     = Inr 600"
  using get_after_set_simulation
    [of "snd (initialize no_library two_gratings True)" no_library 600 None no_library]
  by (simp add: initialize_simulate set_wavelength_def select_grating_for_wavelength_def
      two_gratings_ranges)

subsection \<open>C6: which explicit grating indices are accepted\<close>

text \<open>
  C6 as stated fails: the index is compared with the fixed list \<open>[0, 1]\<close>, not with the
  indices of the loaded ranges. With a single configured grating (index 0), the explicit
  index 1 is not configured and the call succeeds.
\<close>

theorem unconfigured_grating_accepted_counterexample:
  "1 \<notin> set (map index (grating_ranges one_grating))
   \<and> fst (set_wavelength no_library (snd (initialize no_library one_grating True)) 500 (Some 1))
       = Inr ()"
  by (simp add: initialize_simulate set_wavelength_def one_grating_ranges)

text \<open>
  C6, amended. On a session whose handle is set, \<open>set_wavelength\<close> with an explicit
  grating index \<open>g\<close> raises \<open>InvalidGrating\<close> exactly when \<open>g\<close> is neither 0 nor 1,
  whatever the loaded range list.
\<close>

theorem explicit_grating_validated_against_0_1:
  assumes "handle s \<noteq> None"
  shows "(fst (set_wavelength gw s W (Some g)) = Inl (InvalidGrating g)) = (g \<noteq> 0 \<and> g \<noteq> 1)"
  using assms
  by (auto simp: set_wavelength_def Let_def check_status_def split: option.splits)

theorem explicit_grating_validated_against_0_1_witness:
  "fst (set_wavelength no_library (snd (initialize no_library two_gratings True)) 500 (Some 2))
     = Inl (InvalidGrating 2)"
  using explicit_grating_validated_against_0_1
    [of "snd (initialize no_library two_gratings True)" no_library 500 2]
  by (simp add: initialize_simulate)

subsection \<open>C10: an explicit grating skips the range check\<close>

text \<open>
  C10. On a simulated session whose handle is set, \<open>set_wavelength\<close> with the explicit
  grating 0 or 1 returns normally for every wavelength and records exactly that
  wavelength, changing nothing else; and with an explicit grating, on any session,
  \<open>set_wavelength\<close> never raises \<open>UnsupportedWavelength\<close>.
\<close>

theorem explicit_grating_bypasses_ranges:
  "(handle s \<noteq> None \<and> simulate_mode s \<and> (g = 0 \<or> g = 1) \<longrightarrow>
      set_wavelength gw s W (Some g) = (Inr (), s\<lparr>simulated_wavelength := W\<rparr>))
   \<and> fst (set_wavelength gw s W (Some g)) \<noteq> Inl (UnsupportedWavelength w rs)"
  by (auto simp: set_wavelength_def Let_def check_status_def split: option.splits)

text \<open>2000 nm is outside every range of the two gratings.\<close>

theorem explicit_grating_bypasses_ranges_witness:
  "\<not> contains (regular_range (grating_ranges two_gratings ! 0)) 2000
   \<and> \<not> contains (extended_range (grating_ranges two_gratings ! 0)) 2000
   \<and> \<not> contains (regular_range (grating_ranges two_gratings ! 1)) 2000
   \<and> \<not> contains (extended_range (grating_ranges two_gratings ! 1)) 2000
   \<and> set_wavelength no_library (snd (initialize no_library two_gratings True)) 2000 (Some 1) =
       (Inr (), (snd (initialize no_library two_gratings True))\<lparr>simulated_wavelength := 2000\<rparr>)"
  using explicit_grating_bypasses_ranges
    [of "snd (initialize no_library two_gratings True)" 1 no_library 2000]
  by (simp add: initialize_simulate two_gratings_ranges contains_def)

section \<open>Initialization in simulation mode\<close>

subsection \<open>C9: the wavelength read after initialize\<close>

text \<open>
  C9 as stated fails: 550.0 is assigned in \<open>__init__\<close>, and \<open>initialize\<close> does not
  assign \<open>simulated_wavelength\<close>. After setting 600 nm and initializing again in
  simulation mode, \<open>get_wavelength\<close> returns 600, not 550.
\<close>

theorem reinitialize_keeps_wavelength_counterexample:
  "fst (get_wavelength no_library
          (snd (initialize no_library
                  (snd (set_wavelength no_library
                          (snd (initialize no_library two_gratings True)) 600 None))
                  True)))
     = Inr 600"
  by (simp add: initialize_simulate set_wavelength_def select_grating_for_wavelength_def
      two_gratings_ranges get_wavelength_def)

text \<open>
  C9, amended. \<open>get_wavelength\<close> right after \<open>initialize(simulate=True)\<close> returns the
  simulated wavelength the session held before the call; for a freshly constructed
  session that is 550.0.
\<close>

theorem initialize_simulation_baseline:
  "fst (get_wavelength gw' (snd (initialize gw s True))) = Inr (simulated_wavelength s)
   \<and> fst (get_wavelength gw' (snd (initialize gw (init_lltf path name gratings) True))) = Inr 550"
  by (simp add: initialize_simulate get_wavelength_def init_lltf_def)

subsection \<open>C4: the uncertainty argument\<close>

text \<open>
  C4 at the call the tests make, \<open>initialize(simulate=True, uncertainty=0.2)\<close>: the
  signature of \<open>initialize\<close> has no such parameter, so the call raises \<open>TypeError\<close>
  and leaves the session untouched; no offset is drawn or stored.
\<close>

theorem initialize_rejects_uncertainty:
  "call_initialize no_library two_gratings (Some True) (Some 0.2) = (Inl TypeError, two_gratings)"
  by (simp add: call_initialize_def)

section \<open>Closing the session\<close>

lemma close_real_mode:
  assumes "\<not> simulate_mode s" and "handle s = Some h" and "dll s = Some d"
  shows "close gw s =
           (Inr (), s\<lparr>calls := calls s @ [PE_Close h, PE_Destroy h], handle := None\<rparr>)"
  using assms by (simp add: close_def Let_def split: option.splits)

lemma close_cleared_handle:
  assumes "handle s = None"
  shows "close gw s = (Inr (), s)"
  using assms by (simp add: close_def)

lemma close_twice_real_mode:
  assumes "\<not> simulate_mode s" and "handle s = Some h" and "dll s = Some d"
  shows "close gw' (snd (close gw s)) = (Inr (), snd (close gw s))"
  using assms by (simp add: close_real_mode close_cleared_handle)

lemma close_simulation:
  "simulate_mode s \<Longrightarrow> close gw s = (Inr (), s)"
  by (simp add: close_def)

text \<open>
  A real-mode session on a host where \<open>PE_Close\<close> reports status 2: the failure is
  dropped, \<open>PE_Destroy\<close> is still called, the handle is cleared, and a second
  \<open>close\<close> does nothing.
\<close>

lemma close_after_failed_native_close:
  "snd (initialize close_fails two_gratings False) =
     two_gratings\<lparr>dll := Some PE_Filter_SDK, handle := Some 4096,
       calls := [PE_Create ''lltf.xml'', PE_Open 4096 ''LLTF Contrast'']\<rparr>"
  "close close_fails (snd (initialize close_fails two_gratings False)) =
     (Inr (), two_gratings\<lparr>dll := Some PE_Filter_SDK, handle := None,
        calls := [PE_Create ''lltf.xml'', PE_Open 4096 ''LLTF Contrast'',
                  PE_Close 4096, PE_Destroy 4096]\<rparr>)"
  "close close_fails (snd (close close_fails (snd (initialize close_fails two_gratings False)))) =
     (Inr (), snd (close close_fails (snd (initialize close_fails two_gratings False))))"
  by (simp_all add: initialize_def load_dll_def close_fails_def close_def two_gratings_def
      init_lltf_def check_status_def Let_def)

subsection \<open>C7: the handle after close\<close>

text \<open>
  C7 in simulation mode: \<open>close\<close> returns at \<open>if self.simulate_mode\<close>, before the
  assignment \<open>self.handle = None\<close> that the real-mode path reaches. After
  \<open>initialize(simulate=True)\<close> and \<open>close()\<close> the session is unchanged and its
  handle is still the dummy \<open>c_void_p(1)\<close>.
\<close>

theorem close_simulation_keeps_handle:
  "close no_library (snd (initialize no_library two_gratings True)) =
     (Inr (), snd (initialize no_library two_gratings True))
   \<and> handle (snd (close no_library (snd (initialize no_library two_gratings True)))) = Some 1"
  by (simp add: initialize_simulate close_def)

subsection \<open>C8: close raising\<close>

text \<open>
  C8 on a host without the vendor library: \<open>initialize(simulate=True)\<close> sets the dummy
  handle; \<open>initialize(simulate=False)\<close> then clears \<open>simulate_mode\<close> and raises in
  \<open>_load_dll\<close>, leaving \<open>self.dll\<close> \<open>None\<close> and the handle set; \<open>close()\<close> now
  evaluates \<open>self.dll.PE_Close\<close> and raises \<open>AttributeError\<close>, which
  \<open>except LLTFError\<close> does not catch.
\<close>

theorem close_raises_without_library:
  "fst (close no_library
          (snd (initialize no_library (snd (initialize no_library two_gratings True)) False)))
     = Inl AttributeError"
  by (simp add: initialize_simulate)
    (simp add: initialize_def load_dll_def no_library_def close_def two_gratings_def
      init_lltf_def)

end
